theory Spec2Isabelle
  imports Main "HOL-Library.Sublist"
begin

section \<open>HTTP values\<close>

text \<open>
  A request as the router sees it: the method string, the path the framework extracts
  from the URL (the query string is not part of it) and the header lines. A response is
  its status, the media type of its Content-Type header (if it has one) and its body;
  a body of \<open>None\<close> is the null body of a response built without content.
\<close>

record request =
  req_method :: string
  req_path :: string
  req_headers :: "(string \<times> string) list"

record response =
  res_status :: nat
  res_content_type :: "string option"
  res_body :: "string option"

section \<open>What the worker gets from outside the repository\<close>

text \<open>
  A JavaScript exception, as far as the program can meet one: its kind and its message.
\<close>

datatype js_error = ReferenceError string | Error string

text \<open>
  The static files are not part of the program. The middleware reaches them through
  two names of the runtime: \<open>__STATIC_CONTENT_MANIFEST\<close>, a table from file paths to keys,
  and \<open>__STATIC_CONTENT\<close>, the store from keys to contents. Either name may be undefined
  (\<open>None\<close>): a worker in module format, as \<^verbatim>\<open>export default app\<close> makes this one, has no
  global \<open>__STATIC_CONTENT_MANIFEST\<close>. The middleware first turns the request path into a
  file path under the root; this step (decoding, refusing a path with a \<open>..\<close> segment,
  joining the root) differs between versions of the framework and stays a parameter,
  \<open>None\<close> meaning that the path is refused. The console holds what has been written with
  \<open>console.error\<close>. All requests of a worker share these values.
\<close>

record env =
  STATIC_CONTENT_MANIFEST :: "(string \<Rightarrow> string option) option"
  STATIC_CONTENT :: "(string \<Rightarrow> string option) option"
  getFilePath :: "string \<Rightarrow> string \<Rightarrow> string option"
  console :: "js_error list"

section \<open>The framework, as far as the program uses it\<close>

text \<open>
  The program is three route registrations on a \<open>Hono\<close> object. What a registration and
  a request mean is fixed by the framework (the packages \<open>hono\<close> and
  \<open>hono/cloudflare-workers\<close>), which the repository imports and does not contain. This
  section writes down the part of the framework that the program reaches: the response
  helpers \<open>c.json\<close>, \<open>c.text\<close> and \<open>c.body\<close>, route registration with \<open>get\<close>, matching by
  method and path, the handler chain, the default handlers, \<open>fetch\<close>, and the static file
  middleware.
\<close>

subsection \<open>JSON.stringify on an object literal with string properties\<close>

definition hex_digit :: "nat \<Rightarrow> char" where
  "hex_digit n = ''0123456789abcdef'' ! (n mod 16)"

text \<open>
  Quoting of one character: the double quote, the backslash and the control characters
  are escaped, every other character stands for itself.
\<close>

definition quote_char :: "char \<Rightarrow> string" where
  "quote_char c =
     (if c = CHR 0x22 then [CHR 0x5C, CHR 0x22]
      else if c = CHR 0x5C then [CHR 0x5C, CHR 0x5C]
      else if c = CHR 0x08 then [CHR 0x5C, CHR ''b'']
      else if c = CHR 0x09 then [CHR 0x5C, CHR ''t'']
      else if c = CHR 0x0A then [CHR 0x5C, CHR ''n'']
      else if c = CHR 0x0C then [CHR 0x5C, CHR ''f'']
      else if c = CHR 0x0D then [CHR 0x5C, CHR ''r'']
      else if (of_char c :: nat) < 0x20
        then [CHR 0x5C, CHR ''u'', CHR ''0'', CHR ''0'',
              hex_digit (of_char c div 16), hex_digit (of_char c)]
      else [c])"

definition quote :: "string \<Rightarrow> string" where
  "quote s = [CHR 0x22] @ concat (map quote_char s) @ [CHR 0x22]"

fun stringify_properties :: "(string \<times> string) list \<Rightarrow> string" where
  "stringify_properties [] = []"
| "stringify_properties [(k, v)] = quote k @ '':'' @ quote v"
| "stringify_properties ((k, v) # kvs) =
     quote k @ '':'' @ quote v @ '','' @ stringify_properties kvs"

definition JSON_stringify :: "(string \<times> string) list \<Rightarrow> string" where
  "JSON_stringify obj = ''{'' @ stringify_properties obj @ ''}''"

subsection \<open>The context of one request and its response helpers\<close>

text \<open>
  The context \<open>c\<close> is created for one request. It holds the request, the environment
  and the response once one has been set; \<open>c.finalized\<close> is \<open>c_res c \<noteq> None\<close>.
\<close>

record "context" =
  c_req :: request
  c_env :: env
  c_res :: "response option"

definition c_json :: "context \<Rightarrow> (string \<times> string) list \<Rightarrow> response" where
  "c_json c obj =
     \<lparr>res_status = 200, res_content_type = Some ''application/json'',
      res_body = Some (JSON_stringify obj)\<rparr>"

definition c_text :: "context \<Rightarrow> string \<Rightarrow> nat \<Rightarrow> response" where
  "c_text c txt st =
     \<lparr>res_status = st, res_content_type = Some ''text/plain'', res_body = Some txt\<rparr>"

definition c_body :: "context \<Rightarrow> string \<Rightarrow> string \<Rightarrow> response" where
  "c_body c content mime =
     \<lparr>res_status = 200, res_content_type = Some mime, res_body = Some content\<rparr>"

definition notFoundHandler :: "context \<Rightarrow> response" where
  "notFoundHandler c = c_text c ''404 Not Found'' 404"

text \<open>
  The default error handler writes the exception with \<open>console.error\<close> and answers 500.
\<close>

definition errorHandler :: "js_error \<Rightarrow> context \<Rightarrow> response \<times> context" where
  "errorHandler err c =
     (c_text c ''Internal Server Error'' 500,
      c\<lparr>c_env := (c_env c)\<lparr>console := console (c_env c) @ [err]\<rparr>\<rparr>)"

subsection \<open>Handlers, routes and the application object\<close>

text \<open>
  A handler takes the context and \<open>next\<close>, the rest of the chain. It returns a response
  or nothing, or it throws; with the outcome comes the context as it has left it.
\<close>

datatype outcome = Returns "response option" | Throws js_error

type_synonym handler = "context \<Rightarrow> (context \<Rightarrow> context) \<Rightarrow> outcome \<times> context"

record route =
  r_method :: string
  r_path :: string
  r_handler :: handler

type_synonym hono = "route list"

definition new_Hono :: hono where
  "new_Hono = []"

text \<open>\<open>app.get(path, handler)\<close> appends a route for the method GET.\<close>

definition get :: "string \<Rightarrow> handler \<Rightarrow> hono \<Rightarrow> hono" where
  "get p h a = a @ [\<lparr>r_method = ''GET'', r_path = p, r_handler = h\<rparr>]"

text \<open>
  The patterns of the program are literal paths and the wildcard \<open>*\<close>: a literal matches
  the equal path only, the wildcard every path.
\<close>

definition match_path :: "string \<Rightarrow> string \<Rightarrow> bool" where
  "match_path pattern p = (pattern = ''*'' \<or> pattern = p)"

definition router_match :: "hono \<Rightarrow> string \<Rightarrow> string \<Rightarrow> handler list" where
  "router_match a m p =
     map r_handler (filter (\<lambda>r. r_method r = m \<and> match_path (r_path r) p) a)"

text \<open>
  The matched handlers run in registration order, each with the rest of the chain as its
  \<open>next\<close>. A returned response is stored unless the context is finalized already; an
  exception goes to the error handler, whose response is stored in any case; at the end
  of the chain a context that is not finalized gets the not-found response.
\<close>

primrec compose :: "handler list \<Rightarrow> context \<Rightarrow> context" where
  "compose [] = (\<lambda>c. if c_res c = None then c\<lparr>c_res := Some (notFoundHandler c)\<rparr> else c)"
| "compose (h # hs) = (\<lambda>c.
     case h c (compose hs) of
       (Returns (Some r), c') \<Rightarrow> if c_res c' = None then c'\<lparr>c_res := Some r\<rparr> else c'
     | (Returns None, c') \<Rightarrow> c'
     | (Throws err, c') \<Rightarrow>
         (case errorHandler err c' of (r, c'') \<Rightarrow> c''\<lparr>c_res := Some r\<rparr>))"

text \<open>
  A chain that ends without a response is an error of its own (\<open>Context is not
  finalized\<close>), which goes to the error handler like any other.
\<close>

definition dispatch_method :: "hono \<Rightarrow> request \<Rightarrow> env \<Rightarrow> string \<Rightarrow> response \<times> env" where
  "dispatch_method a request e m =
     (let c = compose (router_match a m (req_path request))
                \<lparr>c_req = request, c_env = e, c_res = None\<rparr>
      in case c_res c of
           Some r \<Rightarrow> (r, c_env c)
         | None \<Rightarrow>
             (case errorHandler (Error ''Context is not finalized'') c of
                (r, c') \<Rightarrow> (r, c_env c')))"

text \<open>
  The framework's dispatch treats the method HEAD apart: such a request is dispatched
  again with the method GET and answered with \<^verbatim>\<open>new Response(null, res)\<close>, the status and
  headers of that response and a null body. Every other method goes to the router as it
  is. The second component of the result is the environment as the handlers have
  left it.
\<close>

definition dispatch :: "hono \<Rightarrow> request \<Rightarrow> env \<Rightarrow> string \<Rightarrow> response \<times> env" where
  "dispatch a request e m =
     (if m = ''HEAD''
      then (case dispatch_method a request e ''GET'' of (r, e') \<Rightarrow> (r\<lparr>res_body := None\<rparr>, e'))
      else dispatch_method a request e m)"

definition fetch :: "hono \<Rightarrow> request \<Rightarrow> env \<Rightarrow> response" where
  "fetch a request e = fst (dispatch a request e (req_method request))"

subsection \<open>Media types by file extension\<close>

text \<open>
  The extension of a file path is what follows its last dot, if that is not empty and
  all letters and digits. The framework's table gives the media type of an extension.
\<close>

definition alnum :: "char \<Rightarrow> bool" where
  "alnum c =
     (let n = (of_char c :: nat)
      in (48 \<le> n \<and> n \<le> 57) \<or> (65 \<le> n \<and> n \<le> 90) \<or> (97 \<le> n \<and> n \<le> 122))"

definition extension :: "string \<Rightarrow> string option" where
  "extension p =
     (let ext = rev (takeWhile (\<lambda>c. c \<noteq> CHR ''.'') (rev p))
      in if CHR ''.'' \<in> set p \<and> ext \<noteq> [] \<and> list_all alnum ext then Some ext else None)"

definition baseMimes :: "(string \<times> string) list" where
  "baseMimes =
     [(''aac'', ''audio/aac''), (''avi'', ''video/x-msvideo''), (''avif'', ''image/avif''),
      (''av1'', ''video/av1''), (''bin'', ''application/octet-stream''),
      (''bmp'', ''image/bmp''), (''css'', ''text/css''), (''csv'', ''text/csv''),
      (''eot'', ''application/vnd.ms-fontobject''), (''epub'', ''application/epub+zip''),
      (''gif'', ''image/gif''), (''gz'', ''application/gzip''), (''htm'', ''text/html''),
      (''html'', ''text/html''), (''ico'', ''image/x-icon''), (''ics'', ''text/calendar''),
      (''jpeg'', ''image/jpeg''), (''jpg'', ''image/jpeg''), (''js'', ''text/javascript''),
      (''json'', ''application/json''), (''jsonld'', ''application/ld+json''),
      (''map'', ''application/json''), (''mid'', ''audio/x-midi''),
      (''midi'', ''audio/x-midi''), (''mjs'', ''text/javascript''),
      (''mp3'', ''audio/mpeg''), (''mp4'', ''video/mp4''), (''mpeg'', ''video/mpeg''),
      (''oga'', ''audio/ogg''), (''ogv'', ''video/ogg''), (''ogx'', ''application/ogg''),
      (''opus'', ''audio/opus''), (''otf'', ''font/otf''), (''pdf'', ''application/pdf''),
      (''png'', ''image/png''), (''rtf'', ''application/rtf''), (''svg'', ''image/svg+xml''),
      (''tif'', ''image/tiff''), (''tiff'', ''image/tiff''), (''ts'', ''video/mp2t''),
      (''ttf'', ''font/ttf''), (''txt'', ''text/plain''), (''wasm'', ''application/wasm''),
      (''webm'', ''video/webm''), (''weba'', ''audio/webm''),
      (''webmanifest'', ''application/manifest+json''), (''webp'', ''image/webp''),
      (''woff'', ''font/woff''), (''woff2'', ''font/woff2''),
      (''xhtml'', ''application/xhtml+xml''), (''xml'', ''application/xml''),
      (''zip'', ''application/zip''), (''3gp'', ''video/3gpp''), (''3g2'', ''video/3gpp2''),
      (''gltf'', ''model/gltf+json''), (''glb'', ''model/gltf-binary'')]"

definition getMimeType :: "string \<Rightarrow> string option" where
  "getMimeType filename =
     (case extension filename of None \<Rightarrow> None | Some ext \<Rightarrow> map_of baseMimes ext)"

subsection \<open>The static file middleware\<close>

text \<open>
  The lookup of a file path. The table is the \<open>manifest\<close> option if the caller gives one,
  else the global \<open>__STATIC_CONTENT_MANIFEST\<close>; reading a global that is not defined throws
  a \<open>ReferenceError\<close>. The key is the table's entry for the path, or the path itself;
  the content is what the store holds under the key.
\<close>

definition getContentFromKVAsset ::
  "env \<Rightarrow> (string \<Rightarrow> string option) option \<Rightarrow> string \<Rightarrow> js_error + string option" where
  "getContentFromKVAsset e manifest_option p =
     (case (case manifest_option of Some m \<Rightarrow> Some m | None \<Rightarrow> STATIC_CONTENT_MANIFEST e) of
        None \<Rightarrow> Inl (ReferenceError ''__STATIC_CONTENT_MANIFEST is not defined'')
      | Some m \<Rightarrow>
          (case STATIC_CONTENT e of
             None \<Rightarrow> Inl (ReferenceError ''__STATIC_CONTENT is not defined'')
           | Some store \<Rightarrow>
               (let key = (case m p of None \<Rightarrow> p | Some k \<Rightarrow> if k = [] then p else k)
                in if key = [] then Inr None else Inr (store key))))"

record serve_static_options =
  root :: string
  manifest :: "(string \<Rightarrow> string option) option"

text \<open>
  The middleware: nothing to do on a finalized context; a refused path and a file that
  is not there go on to \<open>next\<close>; a file that is there is the response, with the media type
  of its extension, or \<open>application/octet-stream\<close> when the table has none; an exception
  of the lookup is thrown on.
\<close>

definition serveStatic :: "serve_static_options \<Rightarrow> handler" where
  "serveStatic options c next =
     (if c_res c \<noteq> None then (Returns None, next c)
      else case getFilePath (c_env c) (root options) (req_path (c_req c)) of
        None \<Rightarrow> (Returns None, next c)
      | Some p \<Rightarrow>
          (case getContentFromKVAsset (c_env c) (manifest options) p of
             Inl err \<Rightarrow> (Throws err, c)
           | Inr None \<Rightarrow> (Returns None, next c)
           | Inr (Some content) \<Rightarrow>
               (Returns (Some (c_body c content
                  (case getMimeType p of
                     Some t \<Rightarrow> t | None \<Rightarrow> ''application/octet-stream''))), c)))"

section \<open>The program: src/server/index.ts\<close>

text \<open>
  \<^verbatim>\<open>const app = new Hono();\<close>

  \<^verbatim>\<open>app.get('/api/health', (c) => { return c.json({ status: 'ok', message: 'Server is running' }); });\<close>

  \<^verbatim>\<open>app.get('/api/hello', (c) => { return c.json({ message: 'Hello from Hono!' }); });\<close>

  \<^verbatim>\<open>app.get('*', serveStatic({ root: './' }));\<close>

  The registrations mutate \<open>app\<close> in this order while the module loads; the model passes
  the route table through them. The exported \<open>app\<close> is the table after the third. The
  call of \<open>serveStatic\<close> gives a root and no manifest.
\<close>

definition app :: hono where
  "app =
     (let app0 = new_Hono;
          app1 = get ''/api/health''
                   (\<lambda>c next. (Returns (Some (c_json c [(''status'', ''ok''),
                      (''message'', ''Server is running'')])), c))
                   app0;
          app2 = get ''/api/hello''
                   (\<lambda>c next. (Returns (Some (c_json c [(''message'', ''Hello from Hono!'')])), c))
                   app1;
          app3 = get ''*'' (serveStatic \<lparr>root = ''./'', manifest = None\<rparr>) app2
      in app3)"

section \<open>Requests served one after the other\<close>

text \<open>
  All requests of a worker share the environment: in a sequence of requests each one
  is dispatched on the environment as the one before has left it.
\<close>

fun serve :: "hono \<Rightarrow> env \<Rightarrow> request list \<Rightarrow> response list" where
  "serve a e [] = []"
| "serve a e (r # rs) =
     (case dispatch a r e (req_method r) of (res, e') \<Rightarrow> res # serve a e' rs)"

section \<open>Some environments\<close>

text \<open>
  A file path for the examples: the request path without its leading slash.
\<close>

definition strip_slash :: "string \<Rightarrow> string \<Rightarrow> string option" where
  "strip_slash rt p = Some (dropWhile (\<lambda>c. c = CHR ''/'') p)"

text \<open>
  The worker as the repository configures it: a module, so without the two globals.
\<close>

definition module_worker :: env where
  "module_worker =
     \<lparr>STATIC_CONTENT_MANIFEST = None, STATIC_CONTENT = None,
      getFilePath = strip_slash, console = []\<rparr>"

text \<open>
  A runtime that defines both names: a store with a page and with a file at the path
  of an API route; and a store with no file at all.
\<close>

definition site_manifest :: "string \<Rightarrow> string option" where
  "site_manifest p =
     (if p = ''index.html'' then Some ''index.4f2a.html''
      else if p = ''api/health'' then Some ''api/health.91c0''
      else None)"

definition site_store :: "string \<Rightarrow> string option" where
  "site_store k =
     (if k = ''index.4f2a.html'' then Some ''<!doctype html>''
      else if k = ''api/health.91c0'' then Some ''shadow''
      else None)"

definition site :: env where
  "site =
     \<lparr>STATIC_CONTENT_MANIFEST = Some site_manifest, STATIC_CONTENT = Some site_store,
      getFilePath = strip_slash, console = []\<rparr>"

text \<open>The module worker with the store of the page bound, the table still not defined.\<close>

definition module_site :: env where
  "module_site = module_worker\<lparr>STATIC_CONTENT := Some site_store\<rparr>"

definition no_assets :: env where
  "no_assets =
     \<lparr>STATIC_CONTENT_MANIFEST = Some Map.empty, STATIC_CONTENT = Some Map.empty,
      getFilePath = strip_slash, console = []\<rparr>"

section \<open>What a request is answered with\<close>

lemmas framework_defs = router_match_def match_path_def get_def new_Hono_def
  serveStatic_def c_json_def c_text_def c_body_def notFoundHandler_def errorHandler_def

lemma app_routes:
  "map (\<lambda>r. (r_method r, r_path r)) app =
     [(''GET'', ''/api/health''), (''GET'', ''/api/hello''), (''GET'', ''*'')]"
  by (simp add: app_def get_def new_Hono_def)

lemma stringify_health:
  \<open>JSON_stringify [(''status'', ''ok''), (''message'', ''Server is running'')] =
     ''{"status":"ok","message":"Server is running"}''\<close>
  by (simp add: JSON_stringify_def quote_def quote_char_def)

lemma stringify_hello:
  \<open>JSON_stringify [(''message'', ''Hello from Hono!'')] = ''{"message":"Hello from Hono!"}''\<close>
  by (simp add: JSON_stringify_def quote_def quote_char_def)

text \<open>
  The answer to every request that is dispatched with the method GET, and the
  environment after it.
\<close>

lemma dispatch_method_GET:
  \<open>dispatch_method app r e ''GET'' =
     (if req_path r = ''/api/health''
        then (\<lparr>res_status = 200, res_content_type = Some ''application/json'',
               res_body = Some ''{"status":"ok","message":"Server is running"}''\<rparr>, e)
      else if req_path r = ''/api/hello''
        then (\<lparr>res_status = 200, res_content_type = Some ''application/json'',
               res_body = Some ''{"message":"Hello from Hono!"}''\<rparr>, e)
      else case getFilePath e ''./'' (req_path r) of
        None \<Rightarrow> (\<lparr>res_status = 404, res_content_type = Some ''text/plain'',
                   res_body = Some ''404 Not Found''\<rparr>, e)
      | Some p \<Rightarrow>
          (case getContentFromKVAsset e None p of
             Inl err \<Rightarrow>
               (\<lparr>res_status = 500, res_content_type = Some ''text/plain'',
                 res_body = Some ''Internal Server Error''\<rparr>,
                e\<lparr>console := console e @ [err]\<rparr>)
           | Inr None \<Rightarrow>
               (\<lparr>res_status = 404, res_content_type = Some ''text/plain'',
                 res_body = Some ''404 Not Found''\<rparr>, e)
           | Inr (Some content) \<Rightarrow>
               (\<lparr>res_status = 200,
                 res_content_type =
                   Some (case getMimeType p of
                           Some t \<Rightarrow> t | None \<Rightarrow> ''application/octet-stream''),
                 res_body = Some content\<rparr>, e)))\<close>
  by (simp add: dispatch_method_def app_def framework_defs Let_def
        stringify_health stringify_hello split: option.split sum.split)

text \<open>Every route is registered with \<open>get\<close>: no other method matches a route.\<close>

lemma router_match_other_method: "m \<noteq> ''GET'' \<Longrightarrow> router_match app m p = []"
  by (simp add: app_def framework_defs Let_def)

lemma dispatch_method_other:
  "m \<noteq> ''GET'' \<Longrightarrow>
   dispatch_method app r e m =
     (\<lparr>res_status = 404, res_content_type = Some ''text/plain'',
       res_body = Some ''404 Not Found''\<rparr>, e)"
  by (simp add: dispatch_method_def router_match_other_method notFoundHandler_def c_text_def)


text \<open>A lookup without the table throws, whatever the path and the store.\<close>

lemma lookup_throws:
  "STATIC_CONTENT_MANIFEST e = None \<Longrightarrow>
   getContentFromKVAsset e None p =
     Inl (ReferenceError ''__STATIC_CONTENT_MANIFEST is not defined'')"
  by (simp add: getContentFromKVAsset_def)

text \<open>
  What handling a request can change is the console: the rest of the environment
  comes back as it was.
\<close>

lemma dispatch_frame: "\<exists>l. snd (dispatch app r e m) = e\<lparr>console := console e @ l\<rparr>"
proof (cases "m = ''GET'' \<or> m = ''HEAD''")
  case True
  have "\<exists>l. snd (dispatch_method app r e ''GET'') = e\<lparr>console := console e @ l\<rparr>"
  proof (cases "snd (dispatch_method app r e ''GET'') = e")
    case True
    then have "snd (dispatch_method app r e ''GET'') = e\<lparr>console := console e @ []\<rparr>"
      by simp
    then show ?thesis by blast
  next
    case False
    then show ?thesis
      by (auto simp add: dispatch_method_GET split: if_splits option.splits sum.splits)
  qed
  with True show ?thesis
    by (auto simp add: dispatch_def split: prod.splits)
next
  case False
  then have "snd (dispatch app r e m) = e\<lparr>console := console e @ []\<rparr>"
    by (simp add: dispatch_def dispatch_method_other)
  then show ?thesis by blast
qed

text \<open>A request to an API route leaves the whole environment as it was.\<close>

lemma dispatch_api:
  "req_method r = ''GET'' \<Longrightarrow>
   req_path r = ''/api/health'' \<or> req_path r = ''/api/hello'' \<Longrightarrow>
   dispatch app r e ''GET'' = (fetch app r e, e)"
  by (auto simp add: fetch_def dispatch_def dispatch_method_GET)

lemma serve_api:
  "req_method r = ''GET'' \<Longrightarrow>
   req_path r = ''/api/health'' \<or> req_path r = ''/api/hello'' \<Longrightarrow>
   serve app e (replicate n r) = replicate n (fetch app r e)"
  by (induction n) (simp_all add: dispatch_api)

section \<open>The claims\<close>

text \<open>
  C1. Every request with the method GET and the path /api/health, whatever its headers
  and whatever the environment and its files, is answered with the status 200, the
  content type application/json and the body
  \<^verbatim>\<open>{"status":"ok","message":"Server is running"}\<close>.
\<close>

theorem health_route:
  \<open>req_method r = ''GET'' \<Longrightarrow> req_path r = ''/api/health'' \<Longrightarrow>
   fetch app r e =
     \<lparr>res_status = 200, res_content_type = Some ''application/json'',
      res_body = Some ''{"status":"ok","message":"Server is running"}''\<rparr>\<close>
  by (simp add: fetch_def dispatch_def dispatch_method_GET)

theorem health_route_witness:
  \<open>fetch app \<lparr>req_method = ''GET'', req_path = ''/api/health'',
              req_headers = [(''accept'', ''text/html'')]\<rparr> site =
     \<lparr>res_status = 200, res_content_type = Some ''application/json'',
      res_body = Some ''{"status":"ok","message":"Server is running"}''\<rparr>\<close>
  using health_route [of "\<lparr>req_method = ''GET'', req_path = ''/api/health'',
                           req_headers = [(''accept'', ''text/html'')]\<rparr>" site]
  by simp

text \<open>
  C2. Every request with the method GET and the path /api/hello, whatever its headers
  and whatever the environment and its files, is answered with the status 200, the
  content type application/json and the body \<^verbatim>\<open>{"message":"Hello from Hono!"}\<close>.
\<close>

theorem hello_route:
  \<open>req_method r = ''GET'' \<Longrightarrow> req_path r = ''/api/hello'' \<Longrightarrow>
   fetch app r e =
     \<lparr>res_status = 200, res_content_type = Some ''application/json'',
      res_body = Some ''{"message":"Hello from Hono!"}''\<rparr>\<close>
  by (simp add: fetch_def dispatch_def dispatch_method_GET)

theorem hello_route_witness:
  \<open>fetch app \<lparr>req_method = ''GET'', req_path = ''/api/hello'',
              req_headers = [(''x-requested-with'', ''fetch'')]\<rparr> no_assets =
     \<lparr>res_status = 200, res_content_type = Some ''application/json'',
      res_body = Some ''{"message":"Hello from Hono!"}''\<rparr>\<close>
  using hello_route [of "\<lparr>req_method = ''GET'', req_path = ''/api/hello'',
                          req_headers = [(''x-requested-with'', ''fetch'')]\<rparr>" no_assets]
  by simp




text \<open>
  C4 (amended). A request with the method POST and the path /api/hello matches no route,
  since the route is registered with \<open>get\<close>: it is answered with the framework's
  404 Not Found response, which is not the answer to GET /api/hello.
\<close>

theorem post_hello_not_found:
  "req_method r = ''POST'' \<Longrightarrow> req_path r = ''/api/hello'' \<Longrightarrow>
   fetch app r e =
     \<lparr>res_status = 404, res_content_type = Some ''text/plain'',
      res_body = Some ''404 Not Found''\<rparr>
   \<and> fetch app r e \<noteq> fetch app (r\<lparr>req_method := ''GET''\<rparr>) e"
  by (simp add: fetch_def dispatch_def dispatch_method_GET dispatch_method_other)

theorem post_hello_not_found_witness:
  "fetch app \<lparr>req_method = ''POST'', req_path = ''/api/hello'', req_headers = []\<rparr> site =
     \<lparr>res_status = 404, res_content_type = Some ''text/plain'',
      res_body = Some ''404 Not Found''\<rparr>"
  using post_hello_not_found
    [of "\<lparr>req_method = ''POST'', req_path = ''/api/hello'', req_headers = []\<rparr>" site]
  by simp

theorem post_hello_same_as_get_counterexample:
  \<open>res_status (fetch app \<lparr>req_method = ''POST'', req_path = ''/api/hello'',
                          req_headers = []\<rparr> no_assets) = 404
   \<and> res_body (fetch app \<lparr>req_method = ''POST'', req_path = ''/api/hello'',
                          req_headers = []\<rparr> no_assets) \<noteq>
       Some ''{"message":"Hello from Hono!"}''
   \<and> fetch app \<lparr>req_method = ''POST'', req_path = ''/api/hello'', req_headers = []\<rparr> no_assets \<noteq>
       fetch app \<lparr>req_method = ''GET'', req_path = ''/api/hello'', req_headers = []\<rparr> no_assets\<close>
  by (simp add: fetch_def dispatch_def dispatch_method_GET dispatch_method_other)

text \<open>
  C5. The two API routes are registered before the catch-all route and are matched
  first: for every environment, also one whose store holds a file at /api/health or
  /api/hello, a GET request to either path is answered with the fixed JSON payload of
  the route; the files have no part in the answer.
\<close>

theorem api_routes_before_static:
  \<open>req_method r = ''GET'' \<Longrightarrow>
   req_path r = ''/api/health'' \<or> req_path r = ''/api/hello'' \<Longrightarrow>
   fetch app r e =
     \<lparr>res_status = 200, res_content_type = Some ''application/json'',
      res_body = Some (if req_path r = ''/api/health''
                       then ''{"status":"ok","message":"Server is running"}''
                       else ''{"message":"Hello from Hono!"}'')\<rparr>
   \<and> fetch app r e = fetch app r no_assets\<close>
  by (auto simp add: fetch_def dispatch_def dispatch_method_GET)

theorem api_routes_before_static_witness:
  \<open>getFilePath site ''./'' ''/api/health'' = Some ''api/health''
   \<and> getContentFromKVAsset site None ''api/health'' = Inr (Some ''shadow'')
   \<and> fetch app \<lparr>req_method = ''GET'', req_path = ''/api/health'', req_headers = []\<rparr> site =
     \<lparr>res_status = 200, res_content_type = Some ''application/json'',
      res_body = Some ''{"status":"ok","message":"Server is running"}''\<rparr>\<close>
  using api_routes_before_static
    [of "\<lparr>req_method = ''GET'', req_path = ''/api/health'', req_headers = []\<rparr>" site]
  by (simp add: site_def strip_slash_def getContentFromKVAsset_def site_manifest_def
        site_store_def)

text \<open>
  C6 (the code fails the claim). The program calls \<open>serveStatic\<close> with a root and no
  manifest, and it is a module, where the global table is not defined. So the lookup
  throws on every file path: a GET request to a path outside /api/ is answered with the
  framework's 500 Internal Server Error, also when the store holds the file, and never
  with the bytes of an asset.
\<close>

theorem static_asset_internal_error:
  "STATIC_CONTENT_MANIFEST e = None \<Longrightarrow> req_method r = ''GET'' \<Longrightarrow>
   \<not> prefix ''/api/'' (req_path r) \<Longrightarrow> getFilePath e ''./'' (req_path r) = Some p \<Longrightarrow>
   fetch app r e =
     \<lparr>res_status = 500, res_content_type = Some ''text/plain'',
      res_body = Some ''Internal Server Error''\<rparr>"
  by (auto simp add: fetch_def dispatch_def dispatch_method_GET lookup_throws)

theorem static_asset_internal_error_witness:
  "STATIC_CONTENT_MANIFEST module_site = None
   \<and> \<not> prefix ''/api/'' ''/index.html''
   \<and> getFilePath module_site ''./'' ''/index.html'' = Some ''index.html''
   \<and> STATIC_CONTENT module_site = Some site_store
   \<and> site_store ''index.4f2a.html'' = Some ''<!doctype html>''
   \<and> fetch app \<lparr>req_method = ''GET'', req_path = ''/index.html'', req_headers = []\<rparr>
       module_site =
     \<lparr>res_status = 500, res_content_type = Some ''text/plain'',
      res_body = Some ''Internal Server Error''\<rparr>"
  using static_asset_internal_error
    [of module_site "\<lparr>req_method = ''GET'', req_path = ''/index.html'', req_headers = []\<rparr>"
        "''index.html''"]
  by (simp add: module_site_def module_worker_def strip_slash_def site_store_def)

text \<open>
  C7 (the code fails the claim). A GET request to /api/unknown matches the catch-all
  route alone, and the lookup of the static file middleware throws for want of the
  table: the answer is the framework's 500 Internal Server Error, neither the status
  404 nor a fallback document. Its body is neither of the two payloads.
\<close>

theorem api_unknown_internal_error:
  \<open>STATIC_CONTENT_MANIFEST e = None \<Longrightarrow> req_method r = ''GET'' \<Longrightarrow>
   req_path r = ''/api/unknown'' \<Longrightarrow> getFilePath e ''./'' ''/api/unknown'' = Some p \<Longrightarrow>
   res_status (fetch app r e) = 500
   \<and> res_body (fetch app r e) = Some ''Internal Server Error''
   \<and> res_body (fetch app r e) \<noteq> Some ''{"status":"ok","message":"Server is running"}''
   \<and> res_body (fetch app r e) \<noteq> Some ''{"message":"Hello from Hono!"}''\<close>
  by (simp add: fetch_def dispatch_def dispatch_method_GET lookup_throws)

theorem api_unknown_internal_error_witness:
  "STATIC_CONTENT_MANIFEST module_worker = None
   \<and> getFilePath module_worker ''./'' ''/api/unknown'' = Some ''api/unknown''
   \<and> res_status (fetch app \<lparr>req_method = ''GET'', req_path = ''/api/unknown'',
                            req_headers = []\<rparr> module_worker) = 500
   \<and> res_body (fetch app \<lparr>req_method = ''GET'', req_path = ''/api/unknown'',
                          req_headers = []\<rparr> module_worker) = Some ''Internal Server Error''"
  using api_unknown_internal_error
    [of module_worker "\<lparr>req_method = ''GET'', req_path = ''/api/unknown'', req_headers = []\<rparr>"
        "''api/unknown''"]
  by (simp add: module_worker_def strip_slash_def)

text \<open>
  C8. The API endpoints are deterministic: two GET requests to /api/health (or two to
  /api/hello) are answered with identical bytes, whatever their headers, whatever the
  environment at the time of either request, and however many requests were served
  before.
\<close>

theorem api_idempotent:
  assumes "req_method r1 = ''GET''" and "req_method r2 = ''GET''"
    and "req_path r1 = req_path r2"
    and "req_path r1 = ''/api/health'' \<or> req_path r1 = ''/api/hello''"
  shows "res_body (fetch app r1 e1) = res_body (fetch app r2 e2)
    \<and> (\<forall>n. serve app e1 (replicate n r1) = replicate n (fetch app r2 e2))"
proof -
  have same: "fetch app r1 e1 = fetch app r2 e2"
    using assms by (auto simp add: fetch_def dispatch_def dispatch_method_GET)
  have "serve app e1 (replicate n r1) = replicate n (fetch app r1 e1)" for n
    using assms(1,4) by (rule serve_api)
  with same show ?thesis by simp
qed

theorem api_idempotent_witness:
  "res_body (fetch app \<lparr>req_method = ''GET'', req_path = ''/api/health'',
                        req_headers = [(''accept'', ''*/*'')]\<rparr> site) =
   res_body (fetch app \<lparr>req_method = ''GET'', req_path = ''/api/health'',
                        req_headers = []\<rparr> no_assets)"
  using api_idempotent
    [of "\<lparr>req_method = ''GET'', req_path = ''/api/health'', req_headers = [(''accept'', ''*/*'')]\<rparr>"
        "\<lparr>req_method = ''GET'', req_path = ''/api/health'', req_headers = []\<rparr>"
        site no_assets]
  by simp

text \<open>
  C9 (the code fails the claim). Handling a request has a side effect beyond its
  response when the static file middleware throws: the framework's error handler writes
  the exception to the console. In the module worker the lookup throws on every file
  path, so every GET request to a path other than the two API paths leaves one more
  line on the console. (The rest of the environment comes back unchanged from every
  request, and a request to an API route or with another method writes nothing: see
  \<open>dispatch_frame\<close>, \<open>dispatch_api\<close> and \<open>dispatch_method_other\<close>.)
\<close>

theorem static_request_writes_console:
  "STATIC_CONTENT_MANIFEST e = None \<Longrightarrow> req_method r = ''GET'' \<Longrightarrow>
   req_path r \<noteq> ''/api/health'' \<Longrightarrow> req_path r \<noteq> ''/api/hello'' \<Longrightarrow>
   getFilePath e ''./'' (req_path r) = Some p \<Longrightarrow>
   console (snd (dispatch app r e (req_method r))) =
     console e @ [ReferenceError ''__STATIC_CONTENT_MANIFEST is not defined'']
   \<and> snd (dispatch app r e (req_method r)) \<noteq> e"
proof -
  assume a: "STATIC_CONTENT_MANIFEST e = None" "req_method r = ''GET''"
    "req_path r \<noteq> ''/api/health''" "req_path r \<noteq> ''/api/hello''"
    "getFilePath e ''./'' (req_path r) = Some p"
  then have c: "console (snd (dispatch app r e (req_method r))) =
      console e @ [ReferenceError ''__STATIC_CONTENT_MANIFEST is not defined'']"
    by (simp add: dispatch_def dispatch_method_GET lookup_throws)
  then have "console (snd (dispatch app r e (req_method r))) \<noteq> console e"
    by simp
  then have "snd (dispatch app r e (req_method r)) \<noteq> e"
    by auto
  with c show ?thesis by simp
qed

theorem static_request_writes_console_witness:
  "STATIC_CONTENT_MANIFEST module_worker = None
   \<and> getFilePath module_worker ''./'' ''/index.html'' = Some ''index.html''
   \<and> console module_worker = []
   \<and> console (snd (dispatch app
        \<lparr>req_method = ''GET'', req_path = ''/index.html'', req_headers = []\<rparr>
        module_worker ''GET'')) =
       [ReferenceError ''__STATIC_CONTENT_MANIFEST is not defined'']"
  using static_request_writes_console
    [of module_worker "\<lparr>req_method = ''GET'', req_path = ''/index.html'', req_headers = []\<rparr>"
        "''index.html''"]
  by (simp add: module_worker_def strip_slash_def)

text \<open>
  C10 (amended). Every route is registered for the method GET, and the framework
  dispatches a HEAD request as GET. So for every request whose method is neither GET
  nor HEAD, at any path, no route matches, the static file middleware is not run, and
  the answer is the framework's 404 Not Found response.
\<close>

theorem other_methods_not_found:
  "req_method r \<noteq> ''GET'' \<Longrightarrow> req_method r \<noteq> ''HEAD'' \<Longrightarrow>
   router_match app (req_method r) (req_path r) = []
   \<and> fetch app r e =
       \<lparr>res_status = 404, res_content_type = Some ''text/plain'',
        res_body = Some ''404 Not Found''\<rparr>"
  by (simp add: fetch_def dispatch_def dispatch_method_other router_match_other_method)

theorem other_methods_not_found_witness:
  "fetch app \<lparr>req_method = ''DELETE'', req_path = ''/index.html'', req_headers = []\<rparr> site =
     \<lparr>res_status = 404, res_content_type = Some ''text/plain'',
      res_body = Some ''404 Not Found''\<rparr>"
  using other_methods_not_found
    [of "\<lparr>req_method = ''DELETE'', req_path = ''/index.html'', req_headers = []\<rparr>" site]
  by simp

theorem head_not_found_counterexample:
  "req_method \<lparr>req_method = ''HEAD'', req_path = ''/index.html'', req_headers = []\<rparr> \<noteq> ''GET''
   \<and> fetch app \<lparr>req_method = ''HEAD'', req_path = ''/index.html'', req_headers = []\<rparr> site =
       \<lparr>res_status = 200, res_content_type = Some ''text/html'', res_body = None\<rparr>
   \<and> fetch app \<lparr>req_method = ''HEAD'', req_path = ''/index.html'', req_headers = []\<rparr> no_assets =
       \<lparr>res_status = 404, res_content_type = Some ''text/plain'', res_body = None\<rparr>
   \<and> fetch app \<lparr>req_method = ''HEAD'', req_path = ''/api/health'', req_headers = []\<rparr>
       module_worker =
       \<lparr>res_status = 200, res_content_type = Some ''application/json'', res_body = None\<rparr>"
  by (simp add: site_def no_assets_def strip_slash_def getContentFromKVAsset_def
        site_manifest_def site_store_def getMimeType_def extension_def alnum_def
        baseMimes_def fetch_def dispatch_def dispatch_method_GET)

end
